theory Spec2Isabelle
  imports Complex_Main
begin

section \<open>The tiling demo (src/tiling/main.cc)\<close>

text \<open>
  A shallow embedding of class \<open>Demo\<close>. The C++ \<open>float\<close> and \<open>double\<close> values are
  modelled as exact reals, loop counters as naturals, and every call into OpenGL or into
  the wrapper objects \<open>gl::shader_program\<close>, \<open>gl::geometry\<close> and \<open>gl::shadow_buffer\<close>
  is recorded, in program order, as one entry of a list of calls. A call on a wrapper object
  records the object it was made on.
\<close>

subsection \<open>Vectors and matrices of GLM\<close>

text \<open>
  \<open>glm::mat4\<close> is column-major: \<open>Mat4 c0 c1 c2 c3\<close> holds the four columns. The functions
  below are the ones main.cc calls, written out as the GLM library computes them in its
  default configuration (right-handed, clip-space depth from -1 to 1).
\<close>

datatype vec2 = Vec2 real real
datatype vec3 = Vec3 real real real
datatype vec4 = Vec4 real real real real
datatype mat4 = Mat4 vec4 vec4 vec4 vec4

fun vec4_add :: "vec4 \<Rightarrow> vec4 \<Rightarrow> vec4" where
  "vec4_add (Vec4 a b c d) (Vec4 a' b' c' d') = Vec4 (a + a') (b + b') (c + c') (d + d')"

fun vec4_scale :: "vec4 \<Rightarrow> real \<Rightarrow> vec4" where
  "vec4_scale (Vec4 a b c d) s = Vec4 (a * s) (b * s) (c * s) (d * s)"

fun vec3_sub :: "vec3 \<Rightarrow> vec3 \<Rightarrow> vec3" where
  "vec3_sub (Vec3 a b c) (Vec3 a' b' c') = Vec3 (a - a') (b - b') (c - c')"

fun vec3_scale :: "vec3 \<Rightarrow> real \<Rightarrow> vec3" where
  "vec3_scale (Vec3 a b c) s = Vec3 (a * s) (b * s) (c * s)"

fun dot :: "vec3 \<Rightarrow> vec3 \<Rightarrow> real" where
  "dot (Vec3 a b c) (Vec3 a' b' c') = a * a' + b * b' + c * c'"

fun cross :: "vec3 \<Rightarrow> vec3 \<Rightarrow> vec3" where
  "cross (Vec3 a b c) (Vec3 a' b' c') = Vec3 (b * c' - b' * c) (c * a' - c' * a) (a * b' - a' * b)"

definition normalize :: "vec3 \<Rightarrow> vec3" where
  "normalize v = vec3_scale v (1 / sqrt (dot v v))"

definition mat4_identity :: mat4 where
  "mat4_identity = Mat4 (Vec4 1 0 0 0) (Vec4 0 1 0 0) (Vec4 0 0 1 0) (Vec4 0 0 0 1)"

fun mat4_apply :: "mat4 \<Rightarrow> vec4 \<Rightarrow> vec4" where
  "mat4_apply (Mat4 c0 c1 c2 c3) (Vec4 x y z w) =
     vec4_add (vec4_add (vec4_add (vec4_scale c0 x) (vec4_scale c1 y)) (vec4_scale c2 z))
       (vec4_scale c3 w)"

fun mat4_mul :: "mat4 \<Rightarrow> mat4 \<Rightarrow> mat4" where
  "mat4_mul m (Mat4 b0 b1 b2 b3) =
     Mat4 (mat4_apply m b0) (mat4_apply m b1) (mat4_apply m b2) (mat4_apply m b3)"

fun translate :: "mat4 \<Rightarrow> vec3 \<Rightarrow> mat4" where
  "translate (Mat4 c0 c1 c2 c3) (Vec3 x y z) =
     Mat4 c0 c1 c2
       (vec4_add (vec4_add (vec4_add (vec4_scale c0 x) (vec4_scale c1 y)) (vec4_scale c2 z)) c3)"

fun rotate_axis :: "mat4 \<Rightarrow> real \<Rightarrow> real \<Rightarrow> vec3 \<Rightarrow> mat4" where
  "rotate_axis (Mat4 c0 c1 c2 c3) c s (Vec3 ax ay az) =
     (let tx = (1 - c) * ax; ty = (1 - c) * ay; tz = (1 - c) * az in
      Mat4
        (vec4_add (vec4_add (vec4_scale c0 (c + tx * ax)) (vec4_scale c1 (tx * ay + s * az)))
           (vec4_scale c2 (tx * az - s * ay)))
        (vec4_add (vec4_add (vec4_scale c0 (ty * ax - s * az)) (vec4_scale c1 (c + ty * ay)))
           (vec4_scale c2 (ty * az + s * ax)))
        (vec4_add (vec4_add (vec4_scale c0 (tz * ax + s * ay)) (vec4_scale c1 (tz * ay - s * ax)))
           (vec4_scale c2 (c + tz * az)))
        c3)"

definition rotate :: "mat4 \<Rightarrow> real \<Rightarrow> vec3 \<Rightarrow> mat4" where
  "rotate m angle v = rotate_axis m (cos angle) (sin angle) (normalize v)"

definition ortho :: "real \<Rightarrow> real \<Rightarrow> real \<Rightarrow> real \<Rightarrow> real \<Rightarrow> real \<Rightarrow> mat4" where
  "ortho l r b t zNear zFar =
     Mat4 (Vec4 (2 / (r - l)) 0 0 0)
          (Vec4 0 (2 / (t - b)) 0 0)
          (Vec4 0 0 (- 2 / (zFar - zNear)) 0)
          (Vec4 (- (r + l) / (r - l)) (- (t + b) / (t - b)) (- (zFar + zNear) / (zFar - zNear)) 1)"

definition lookAt :: "vec3 \<Rightarrow> vec3 \<Rightarrow> vec3 \<Rightarrow> mat4" where
  "lookAt eye center up =
     (let f = normalize (vec3_sub center eye);
          s = normalize (cross f up);
          u = cross s f
      in case (s, u, f) of (Vec3 sx sy sz, Vec3 ux uy uz, Vec3 fx fy fz) \<Rightarrow>
         Mat4 (Vec4 sx ux (- fx) 0)
              (Vec4 sy uy (- fy) 0)
              (Vec4 sz uz (- fz) 0)
              (Vec4 (- dot s eye) (- dot u eye) (dot f eye) 1))"

definition perspective :: "real \<Rightarrow> real \<Rightarrow> real \<Rightarrow> real \<Rightarrow> mat4" where
  "perspective fovy aspect zNear zFar =
     (let tanHalfFovy = tan (fovy / 2) in
      Mat4 (Vec4 (1 / (aspect * tanHalfFovy)) 0 0 0)
           (Vec4 0 (1 / tanHalfFovy) 0 0)
           (Vec4 0 0 (- (zFar + zNear) / (zFar - zNear)) (- 1))
           (Vec4 0 0 (- (2 * zFar * zNear) / (zFar - zNear)) 0))"

definition radians :: "real \<Rightarrow> real" where
  "radians degrees = degrees * (pi / 180)"

subsection \<open>Calls into OpenGL and the wrapper objects\<close>

text \<open>
  The two shader programs are the members \<open>program_\<close> and \<open>shadow_program_\<close>, the
  two geometry buffers the members \<open>hexagon_\<close> and \<open>diamond_\<close>.
\<close>

datatype program_id = MainProgram | ShadowProgram

datatype geometry_id = HexagonGeometry | DiamondGeometry

datatype gl_cap = GL_BLEND | GL_CULL_FACE | GL_MULTISAMPLE | GL_POLYGON_OFFSET_FILL | GL_DEPTH_TEST

datatype gl_buffer_bit = GL_COLOR_BUFFER_BIT | GL_DEPTH_BUFFER_BIT

datatype gl_shader_stage = GL_VERTEX_SHADER | GL_GEOMETRY_SHADER | GL_FRAGMENT_SHADER

datatype gl_func = GL_LESS

datatype gl_mode = GL_LINE_LOOP

datatype uniform_value = UMat4 mat4 | UVec3 vec3 | UFloat real | UInt int

datatype gl_call =
    GlDisable gl_cap
  | GlEnable gl_cap
  | GlViewport int int int int
  | GlClear "gl_buffer_bit list"
  | GlClearColor real real real real
  | GlPolygonOffset real real
  | GlDepthFunc gl_func
  | GlDrawArrays gl_mode int int
  | ProgramCreate program_id
  | GeometryCreate geometry_id
  | ShadowBufferCreate int int
  | ShadowBufferBind
  | ShadowBufferUnbind
  | ShadowBufferBindTexture
  | ProgramAddShader program_id gl_shader_stage string
  | ProgramLink program_id
  | ProgramBind program_id
  | ProgramSetUniform program_id string uniform_value
  | GeometrySetData geometry_id "vec2 list"
  | GeometryBind geometry_id

subsection \<open>The C library's random source\<close>

text \<open>
  \<open>std::rand\<close> is a deterministic generator with hidden state: it is the sequence of the
  values it returns and the number of calls made so far. \<open>RAND_MAX\<close> is the constant of
  the same library; \<open>std::rand\<close> returns values from 0 to \<open>RAND_MAX\<close>, both included.
\<close>

record stdlib =
  RAND_MAX :: int
  rand_source :: "nat \<Rightarrow> int"
  rand_calls :: nat

definition std_rand :: "stdlib \<Rightarrow> int \<times> stdlib" where
  "std_rand c = (rand_source c (rand_calls c), c\<lparr>rand_calls := Suc (rand_calls c)\<rparr>)"

subsection \<open>Counted loops\<close>

text \<open>\<open>for (int i = lo; i < n; ++i) body\<close>, the body acting on the state \<open>s\<close>.\<close>

function for_loop :: "nat \<Rightarrow> nat \<Rightarrow> (nat \<Rightarrow> 's \<Rightarrow> 's) \<Rightarrow> 's \<Rightarrow> 's" where
  "for_loop i n body s = (if i < n then for_loop (Suc i) n body (body i s) else s)"
  by pat_completeness auto
termination
  by (relation "measure (\<lambda>(i, n, body, s). n - i)") auto

declare for_loop.simps [simp del]

subsection \<open>class Demo\<close>

definition ShadowWidth :: int where "ShadowWidth = 2048"
definition ShadowHeight :: int where "ShadowHeight = ShadowWidth"
definition GridRows :: nat where "GridRows = 12"
definition GridColumns :: nat where "GridColumns = 12"

record demo =
  hexagon_heights :: "nat \<Rightarrow> nat \<Rightarrow> real"
  diamond_heights :: "nat \<Rightarrow> nat \<Rightarrow> real"
  window_width :: int
  window_height :: int
  cur_time :: real

definition cos_30 :: real where
  "cos_30 = cos (pi / 6)"

definition initialize_shader :: "gl_call list \<Rightarrow> gl_call list" where
  "initialize_shader gl = gl @
     [ProgramAddShader ShadowProgram GL_VERTEX_SHADER ''shaders/shadow.vert'',
      ProgramAddShader ShadowProgram GL_GEOMETRY_SHADER ''shaders/shadow.geom'',
      ProgramAddShader ShadowProgram GL_FRAGMENT_SHADER ''shaders/shadow.frag'',
      ProgramLink ShadowProgram,
      ProgramAddShader MainProgram GL_VERTEX_SHADER ''shaders/tile.vert'',
      ProgramAddShader MainProgram GL_GEOMETRY_SHADER ''shaders/tile.geom'',
      ProgramAddShader MainProgram GL_FRAGMENT_SHADER ''shaders/tile.frag'',
      ProgramLink MainProgram]"

definition hexagon_verts :: "vec2 list" where
  "hexagon_verts =
     [Vec2 cos_30 0.5, Vec2 0 1, Vec2 (- cos_30) 0.5,
      Vec2 (- cos_30) (- 0.5), Vec2 0 (- 1), Vec2 cos_30 (- 0.5)]"

definition diamond_verts :: "vec2 list" where
  "diamond_verts = [Vec2 cos_30 0, Vec2 0 0.5, Vec2 (- cos_30) 0, Vec2 0 (- 0.5)]"

definition initialize_geometry :: "gl_call list \<Rightarrow> gl_call list" where
  "initialize_geometry gl = gl @
     [GeometrySetData HexagonGeometry hexagon_verts,
      GeometrySetData DiamondGeometry diamond_verts]"

text \<open>The right-hand side \<open>2.5 * static_cast<float>(std::rand()) / RAND_MAX\<close>.\<close>

definition random_phase :: "stdlib \<Rightarrow> real \<times> stdlib" where
  "random_phase c = (case std_rand c of (r, c') \<Rightarrow> (2.5 * real_of_int r / real_of_int (RAND_MAX c), c'))"

definition set_hexagon_height :: "nat \<Rightarrow> nat \<Rightarrow> demo \<times> stdlib \<Rightarrow> demo \<times> stdlib" where
  "set_hexagon_height i j s =
     (case s of (d, c) \<Rightarrow> case random_phase c of (p, c') \<Rightarrow>
        (d\<lparr>hexagon_heights := (hexagon_heights d)(i := (hexagon_heights d i)(j := p))\<rparr>, c'))"

definition set_diamond_height :: "nat \<Rightarrow> nat \<Rightarrow> demo \<times> stdlib \<Rightarrow> demo \<times> stdlib" where
  "set_diamond_height i j s =
     (case s of (d, c) \<Rightarrow> case random_phase c of (p, c') \<Rightarrow>
        (d\<lparr>diamond_heights := (diamond_heights d)(i := (diamond_heights d i)(j := p))\<rparr>, c'))"

text \<open>The two loop nests of \<open>initialize_heights\<close>, and the function itself.\<close>

definition initialize_hexagon_heights :: "demo \<times> stdlib \<Rightarrow> demo \<times> stdlib" where
  "initialize_hexagon_heights =
     for_loop 0 GridRows (\<lambda>i. for_loop 0 GridColumns (\<lambda>j. set_hexagon_height i j))"

definition initialize_diamond_heights :: "demo \<times> stdlib \<Rightarrow> demo \<times> stdlib" where
  "initialize_diamond_heights =
     for_loop 0 (GridRows - 1) (\<lambda>i. for_loop 0 (GridColumns - 1) (\<lambda>j. set_diamond_height i j))"

definition initialize_heights :: "demo \<times> stdlib \<Rightarrow> demo \<times> stdlib" where
  "initialize_heights s = initialize_diamond_heights (initialize_hexagon_heights s)"

text \<open>
  The constructor. The two height arrays have no initialiser, so they start with whatever
  the memory holds: \<open>h0\<close> and \<open>d0\<close>. \<open>cur_time_\<close> has the member initialiser 0.
  The wrapper members are constructed in the order of their declaration.
\<close>

definition Demo ::
  "int \<Rightarrow> int \<Rightarrow> (nat \<Rightarrow> nat \<Rightarrow> real) \<Rightarrow> (nat \<Rightarrow> nat \<Rightarrow> real) \<Rightarrow> stdlib \<Rightarrow> gl_call list
     \<Rightarrow> demo \<times> stdlib \<times> gl_call list" where
  "Demo width height h0 d0 c gl =
     (let d = \<lparr>hexagon_heights = h0, diamond_heights = d0,
               window_width = width, window_height = height, cur_time = 0\<rparr>;
          gl = gl @ [ProgramCreate MainProgram, ProgramCreate ShadowProgram,
                     GeometryCreate HexagonGeometry, GeometryCreate DiamondGeometry,
                     ShadowBufferCreate ShadowWidth ShadowHeight];
          gl = initialize_shader gl;
          gl = initialize_geometry gl
      in case initialize_heights (d, c) of (d', c') \<Rightarrow> (d', c', gl))"

text \<open>The body of the hexagon loop of \<open>draw_grid\<close>, and of its diamond loop.\<close>

definition draw_hexagon :: "demo \<Rightarrow> mat4 \<Rightarrow> nat \<Rightarrow> nat \<Rightarrow> gl_call list \<Rightarrow> gl_call list" where
  "draw_hexagon d model i j gl =
     (let x = 2 * cos_30 * (real j - 0.5 * real (GridColumns - 1));
          y = 2 * (real i - 0.5 * real (GridRows - 1));
          t = translate mat4_identity (Vec3 x y 0);
          gl = gl @ [ProgramSetUniform MainProgram ''modelMatrix'' (UMat4 (mat4_mul model t))];
          height = 2.5 * (1 + sin (cur_time d + hexagon_heights d i j));
          gl = gl @ [ProgramSetUniform MainProgram ''height'' (UFloat height)]
      in gl @ [GlDrawArrays GL_LINE_LOOP 0 6])"

definition draw_diamond :: "demo \<Rightarrow> mat4 \<Rightarrow> nat \<Rightarrow> nat \<Rightarrow> gl_call list \<Rightarrow> gl_call list" where
  "draw_diamond d model i j gl =
     (let x = 2 * cos_30 * (real j - 0.5 * real (GridColumns - 2));
          y = 2 * (real i - 0.5 * real (GridRows - 2));
          t = translate mat4_identity (Vec3 x y 0);
          gl = gl @ [ProgramSetUniform MainProgram ''modelMatrix'' (UMat4 (mat4_mul model t))];
          height = 2.5 * (1 + sin (cur_time d + diamond_heights d i j));
          gl = gl @ [ProgramSetUniform MainProgram ''height'' (UFloat height)]
      in gl @ [GlDrawArrays GL_LINE_LOOP 0 4])"

text \<open>
  \<open>draw_grid\<close> takes the shader program as its first parameter and never uses it: every
  \<open>set_uniform\<close> in its body is a call on the member \<open>program_\<close>.
\<close>

definition draw_grid :: "demo \<Rightarrow> program_id \<Rightarrow> mat4 \<Rightarrow> gl_call list \<Rightarrow> gl_call list" where
  "draw_grid d program model gl =
     (let gl = gl @ [GeometryBind HexagonGeometry];
          gl = for_loop 0 GridRows (\<lambda>i. for_loop 0 GridColumns (\<lambda>j. draw_hexagon d model i j)) gl;
          gl = gl @ [GeometryBind DiamondGeometry]
      in for_loop 0 (GridRows - 1)
           (\<lambda>i. for_loop 0 (GridColumns - 1) (\<lambda>j. draw_diamond d model i j)) gl)"

definition render :: "demo \<Rightarrow> gl_call list \<Rightarrow> gl_call list" where
  "render d gl =
     (let light_position = Vec3 (- 6) (- 12) 15;
          model = rotate mat4_identity (0.25 * pi) (Vec3 0 0 1);
          gl = gl @ [GlDisable GL_BLEND, GlDisable GL_CULL_FACE, GlEnable GL_MULTISAMPLE];
          gl = gl @ [GlViewport 0 0 ShadowWidth ShadowHeight, ShadowBufferBind];
          gl = gl @ [GlClear [GL_DEPTH_BUFFER_BIT]];
          light_projection = ortho (- 10) 10 (- 10) 10 1 50;
          light_view = lookAt light_position (Vec3 0 0 0) (Vec3 0 1 0);
          gl = gl @ [ProgramBind ShadowProgram,
                     ProgramSetUniform ShadowProgram ''viewProjectionMatrix''
                       (UMat4 (mat4_mul light_projection light_view))];
          gl = gl @ [GlEnable GL_POLYGON_OFFSET_FILL, GlPolygonOffset 4 4];
          gl = draw_grid d MainProgram model gl;
          gl = gl @ [GlDisable GL_POLYGON_OFFSET_FILL, ShadowBufferUnbind];
          gl = gl @ [GlViewport 0 0 (window_width d) (window_height d), GlClearColor 0 0 0 0];
          gl = gl @ [GlClear [GL_COLOR_BUFFER_BIT, GL_DEPTH_BUFFER_BIT]];
          gl = gl @ [GlEnable GL_DEPTH_TEST, GlDepthFunc GL_LESS];
          projection = perspective (radians 45)
                         (real_of_int (window_width d) / real_of_int (window_height d)) 0.1 100;
          camera_position = Vec3 0 (- 6) 12;
          look_at = Vec3 0 0 0;
          view = lookAt camera_position look_at (Vec3 0 1 0);
          gl = gl @ [ShadowBufferBindTexture];
          gl = gl @ [ProgramBind MainProgram,
                     ProgramSetUniform MainProgram ''viewProjectionMatrix''
                       (UMat4 (mat4_mul projection view)),
                     ProgramSetUniform MainProgram ''lightPosition'' (UVec3 light_position),
                     ProgramSetUniform MainProgram ''color'' (UVec3 (Vec3 1 1 1)),
                     ProgramSetUniform MainProgram ''lightViewProjection''
                       (UMat4 (mat4_mul light_projection light_view)),
                     ProgramSetUniform MainProgram ''shadowMapTexture'' (UInt 0)]
      in draw_grid d MainProgram model gl)"

definition render_and_step :: "real \<Rightarrow> demo \<times> gl_call list \<Rightarrow> demo \<times> gl_call list" where
  "render_and_step dt s =
     (case s of (d, gl) \<Rightarrow>
        (let gl = render d gl
         in (d\<lparr>cur_time := cur_time d + dt\<rparr>, gl)))"


text \<open>
  The frame loop of \<open>main\<close>: one \<open>render_and_step\<close> per frame, with the time steps
  \<open>dts\<close> that the window system's clock supplies.
\<close>

definition run_frames :: "real list \<Rightarrow> demo \<times> gl_call list \<Rightarrow> demo \<times> gl_call list" where
  "run_frames dts s = fold render_and_step dts s"

subsection \<open>Observations on a list of calls\<close>

text \<open>
  The calls of a frame up to and including the unbinding of the shadow target are its
  shadow pass, the calls after it are its colour pass.
\<close>

definition shadow_pass :: "gl_call list \<Rightarrow> gl_call list" where
  "shadow_pass gl = take (Suc (length (takeWhile (\<lambda>c. c \<noteq> ShadowBufferUnbind) gl))) gl"

definition color_pass :: "gl_call list \<Rightarrow> gl_call list" where
  "color_pass gl = drop (Suc (length (takeWhile (\<lambda>c. c \<noteq> ShadowBufferUnbind) gl))) gl"

text \<open>
  The outline of a frame: the calls that select a render target, clear it, select a shader
  program, or draw.
\<close>

fun in_outline :: "gl_call \<Rightarrow> bool" where
  "in_outline ShadowBufferBind = True"
| "in_outline ShadowBufferUnbind = True"
| "in_outline ShadowBufferBindTexture = True"
| "in_outline (GlClear bits) = True"
| "in_outline (ProgramBind p) = True"
| "in_outline (GlDrawArrays mode first count) = True"
| "in_outline c = False"

definition pass_outline :: "gl_call list \<Rightarrow> gl_call list" where
  "pass_outline gl = filter in_outline gl"

text \<open>
  What each draw call draws: the values last handed to \<open>set_uniform\<close> under the names
  \<open>modelMatrix\<close> and \<open>height\<close> (on whichever program object), and the primitive and
  vertex count of the draw call.
\<close>

datatype drawn_tile =
  DrawnTile (tile_matrix: "uniform_value option") (tile_height: "uniform_value option")
    (tile_mode: gl_mode) (tile_count: int)

fun drawn_tiles ::
  "uniform_value option \<Rightarrow> uniform_value option \<Rightarrow> gl_call list \<Rightarrow> drawn_tile list" where
  "drawn_tiles m h [] = []"
| "drawn_tiles m h (ProgramSetUniform p name v # gl) =
     (if name = ''modelMatrix'' then drawn_tiles (Some v) h gl
      else if name = ''height'' then drawn_tiles m (Some v) gl
      else drawn_tiles m h gl)"
| "drawn_tiles m h (GlDrawArrays mode first count # gl) =
     DrawnTile m h mode count # drawn_tiles m h gl"
| "drawn_tiles m h (c # gl) = drawn_tiles m h gl"

text \<open>
  For each \<open>set_uniform\<close> of a per-tile uniform: the program bound at that moment (the
  one \<open>bind\<close> was last called on), the program object the call was made on, and the name.
\<close>

fun tile_uniform_targets ::
  "program_id option \<Rightarrow> gl_call list \<Rightarrow> (program_id option \<times> program_id \<times> string) list" where
  "tile_uniform_targets b [] = []"
| "tile_uniform_targets b (ProgramBind p # gl) = tile_uniform_targets (Some p) gl"
| "tile_uniform_targets b (ProgramSetUniform p name v # gl) =
     (if name = ''modelMatrix'' \<or> name = ''height''
      then (b, p, name) # tile_uniform_targets b gl
      else tile_uniform_targets b gl)"
| "tile_uniform_targets b (c # gl) = tile_uniform_targets b gl"

subsection \<open>The tiles of a pass as the specification lists them\<close>

text \<open>
  All hexagons in row-major order, then all diamonds in row-major order; slot \<open>(i, j)\<close>
  is placed by the centring formulas of the grid layout, its height is
  \<open>2.5 (1 + sin (t + p))\<close>, and it is drawn as a line loop of 6 or of 4 vertices.
\<close>

definition spec_hexagon_offset :: "nat \<Rightarrow> nat \<Rightarrow> vec3" where
  "spec_hexagon_offset i j =
     Vec3 (2 * cos (pi / 6) * (real j - (real GridColumns - 1) / 2))
          (2 * (real i - (real GridRows - 1) / 2)) 0"

definition spec_diamond_offset :: "nat \<Rightarrow> nat \<Rightarrow> vec3" where
  "spec_diamond_offset i j =
     Vec3 (2 * cos (pi / 6) * (real j - (real GridColumns - 2) / 2))
          (2 * (real i - (real GridRows - 2) / 2)) 0"

definition spec_height :: "real \<Rightarrow> real \<Rightarrow> real" where
  "spec_height t p = 2.5 * (1 + sin (t + p))"

definition spec_hexagon_tile :: "demo \<Rightarrow> mat4 \<Rightarrow> nat \<Rightarrow> nat \<Rightarrow> drawn_tile" where
  "spec_hexagon_tile d model i j =
     DrawnTile (Some (UMat4 (mat4_mul model (translate mat4_identity (spec_hexagon_offset i j)))))
       (Some (UFloat (spec_height (cur_time d) (hexagon_heights d i j)))) GL_LINE_LOOP 6"

definition spec_diamond_tile :: "demo \<Rightarrow> mat4 \<Rightarrow> nat \<Rightarrow> nat \<Rightarrow> drawn_tile" where
  "spec_diamond_tile d model i j =
     DrawnTile (Some (UMat4 (mat4_mul model (translate mat4_identity (spec_diamond_offset i j)))))
       (Some (UFloat (spec_height (cur_time d) (diamond_heights d i j)))) GL_LINE_LOOP 4"

definition spec_tiles :: "demo \<Rightarrow> mat4 \<Rightarrow> drawn_tile list" where
  "spec_tiles d model =
     map (\<lambda>(i, j). spec_hexagon_tile d model i j) (List.product [0..<GridRows] [0..<GridColumns]) @
     map (\<lambda>(i, j). spec_diamond_tile d model i j)
       (List.product [0..<GridRows - 1] [0..<GridColumns - 1])"

subsection \<open>Example inputs\<close>

definition example_demo :: demo where
  "example_demo = \<lparr>hexagon_heights = (\<lambda>i j. 0), diamond_heights = (\<lambda>i j. 0),
      window_width = 800, window_height = 800, cur_time = 0\<rparr>"

definition counting_stdlib :: stdlib where
  "counting_stdlib = \<lparr>RAND_MAX = 32767, rand_source = (\<lambda>n. if n < 300 then int n else 0),
      rand_calls = 0\<rparr>"

definition saturated_stdlib :: stdlib where
  "saturated_stdlib = \<lparr>RAND_MAX = 32767, rand_source = (\<lambda>n. 32767), rand_calls = 0\<rparr>"

subsection \<open>Auxiliary definitions\<close>

text \<open>
  Names for parts of the list of calls of a frame: the calls of one tile (the loop body run
  on an empty list), the calls of one \<open>draw_grid\<close>, the locals \<open>model\<close>,
  \<open>light_projection * light_view\<close> and \<open>projection * view\<close> of \<open>render\<close>, and the
  calls \<open>render\<close> makes before, between and after its two \<open>draw_grid\<close>. Then the
  \<open>k\<close>-th phase of a random source, an array filled with consecutive phases, and the clock
  values of a run of frames.
\<close>

definition hexagon_calls :: "demo \<Rightarrow> mat4 \<Rightarrow> nat \<Rightarrow> nat \<Rightarrow> gl_call list" where
  "hexagon_calls d model i j = draw_hexagon d model i j []"

definition diamond_calls :: "demo \<Rightarrow> mat4 \<Rightarrow> nat \<Rightarrow> nat \<Rightarrow> gl_call list" where
  "diamond_calls d model i j = draw_diamond d model i j []"

definition grid_calls :: "demo \<Rightarrow> mat4 \<Rightarrow> gl_call list" where
  "grid_calls d model =
     [GeometryBind HexagonGeometry] @
     concat (map (\<lambda>i. concat (map (\<lambda>j. hexagon_calls d model i j) [0..<GridColumns])) [0..<GridRows]) @
     [GeometryBind DiamondGeometry] @
     concat (map (\<lambda>i. concat (map (\<lambda>j. diamond_calls d model i j) [0..<GridColumns - 1]))
       [0..<GridRows - 1])"

definition scene_model :: mat4 where
  "scene_model = rotate mat4_identity (0.25 * pi) (Vec3 0 0 1)"

definition light_view_projection :: mat4 where
  "light_view_projection =
     mat4_mul (ortho (- 10) 10 (- 10) 10 1 50) (lookAt (Vec3 (- 6) (- 12) 15) (Vec3 0 0 0) (Vec3 0 1 0))"

definition camera_view_projection :: "demo \<Rightarrow> mat4" where
  "camera_view_projection d =
     mat4_mul (perspective (radians 45)
                (real_of_int (window_width d) / real_of_int (window_height d)) 0.1 100)
              (lookAt (Vec3 0 (- 6) 12) (Vec3 0 0 0) (Vec3 0 1 0))"

definition shadow_pass_head :: "gl_call list" where
  "shadow_pass_head =
     [GlDisable GL_BLEND, GlDisable GL_CULL_FACE, GlEnable GL_MULTISAMPLE,
      GlViewport 0 0 ShadowWidth ShadowHeight, ShadowBufferBind,
      GlClear [GL_DEPTH_BUFFER_BIT],
      ProgramBind ShadowProgram,
      ProgramSetUniform ShadowProgram ''viewProjectionMatrix'' (UMat4 light_view_projection),
      GlEnable GL_POLYGON_OFFSET_FILL, GlPolygonOffset 4 4]"

definition shadow_pass_tail :: "gl_call list" where
  "shadow_pass_tail = [GlDisable GL_POLYGON_OFFSET_FILL, ShadowBufferUnbind]"

definition color_pass_head :: "demo \<Rightarrow> gl_call list" where
  "color_pass_head d =
     [GlViewport 0 0 (window_width d) (window_height d), GlClearColor 0 0 0 0,
      GlClear [GL_COLOR_BUFFER_BIT, GL_DEPTH_BUFFER_BIT],
      GlEnable GL_DEPTH_TEST, GlDepthFunc GL_LESS,
      ShadowBufferBindTexture,
      ProgramBind MainProgram,
      ProgramSetUniform MainProgram ''viewProjectionMatrix'' (UMat4 (camera_view_projection d)),
      ProgramSetUniform MainProgram ''lightPosition'' (UVec3 (Vec3 (- 6) (- 12) 15)),
      ProgramSetUniform MainProgram ''color'' (UVec3 (Vec3 1 1 1)),
      ProgramSetUniform MainProgram ''lightViewProjection'' (UMat4 light_view_projection),
      ProgramSetUniform MainProgram ''shadowMapTexture'' (UInt 0)]"

definition nth_phase :: "stdlib \<Rightarrow> nat \<Rightarrow> real" where
  "nth_phase c k = 2.5 * real_of_int (rand_source c k) / real_of_int (RAND_MAX c)"

definition filled :: "stdlib \<Rightarrow> nat \<Rightarrow> nat \<Rightarrow> nat \<Rightarrow> (nat \<Rightarrow> nat \<Rightarrow> real) \<Rightarrow> nat \<Rightarrow> nat \<Rightarrow> real" where
  "filled c k m n a = (\<lambda>i j. if i < m \<and> j < n then nth_phase c (k + i * n + j) else a i j)"

definition clock_history :: "real list \<Rightarrow> demo \<times> gl_call list \<Rightarrow> real list" where
  "clock_history dts s = map (\<lambda>k. cur_time (fst (run_frames (take k dts) s))) [0..<Suc (length dts)]"

section \<open>Loops and lists of calls\<close>

lemma for_loop_fold: "for_loop i n body s = fold body [i..<n] s"
proof (induction i n body s rule: for_loop.induct)
  case (1 i n body s)
  show ?case
  proof (cases "i < n")
    case True
    then show ?thesis using 1 by (simp add: for_loop.simps [of i n] upt_conv_Cons)
  next
    case False
    then show ?thesis by (simp add: for_loop.simps [of i n])
  qed
qed

lemma fold_emit:
  assumes "\<And>x gl. f x gl = gl @ g x"
  shows "fold f xs gl = gl @ concat (map g xs)"
  using assms by (induction xs arbitrary: gl) simp_all

subsection \<open>The calls of draw_grid and of render\<close>

lemma draw_hexagon_emit: "draw_hexagon d model i j gl = gl @ hexagon_calls d model i j"
  by (simp add: draw_hexagon_def hexagon_calls_def Let_def)

lemma draw_diamond_emit: "draw_diamond d model i j gl = gl @ diamond_calls d model i j"
  by (simp add: draw_diamond_def diamond_calls_def Let_def)

lemma hexagon_row_emit:
  "for_loop 0 n (\<lambda>j. draw_hexagon d model i j) gl =
     gl @ concat (map (\<lambda>j. hexagon_calls d model i j) [0..<n])"
  unfolding for_loop_fold by (rule fold_emit) (rule draw_hexagon_emit)

lemma diamond_row_emit:
  "for_loop 0 n (\<lambda>j. draw_diamond d model i j) gl =
     gl @ concat (map (\<lambda>j. diamond_calls d model i j) [0..<n])"
  unfolding for_loop_fold by (rule fold_emit) (rule draw_diamond_emit)

lemma draw_grid_emit: "draw_grid d program model gl = gl @ grid_calls d model"
proof -
  have hex: "for_loop 0 GridRows (\<lambda>i. for_loop 0 GridColumns (\<lambda>j. draw_hexagon d model i j)) g =
      g @ concat (map (\<lambda>i. concat (map (\<lambda>j. hexagon_calls d model i j) [0..<GridColumns])) [0..<GridRows])"
    for g
    unfolding for_loop_fold [of 0 GridRows] by (rule fold_emit) (rule hexagon_row_emit)
  have dia: "for_loop 0 (GridRows - 1) (\<lambda>i. for_loop 0 (GridColumns - 1) (\<lambda>j. draw_diamond d model i j)) g =
      g @ concat (map (\<lambda>i. concat (map (\<lambda>j. diamond_calls d model i j) [0..<GridColumns - 1])) [0..<GridRows - 1])"
    for g
    unfolding for_loop_fold [of 0 "GridRows - 1"] by (rule fold_emit) (rule diamond_row_emit)
  show ?thesis
    unfolding draw_grid_def Let_def hex dia grid_calls_def by simp
qed

lemma render_emit:
  "render d gl = gl @ (shadow_pass_head @ grid_calls d scene_model @ shadow_pass_tail) @
     (color_pass_head d @ grid_calls d scene_model)"
  unfolding render_def Let_def draw_grid_emit shadow_pass_head_def shadow_pass_tail_def
    color_pass_head_def scene_model_def light_view_projection_def camera_view_projection_def
  by simp

lemma hexagon_calls_eq:
  "hexagon_calls d model i j =
     [ProgramSetUniform MainProgram ''modelMatrix''
        (UMat4 (mat4_mul model (translate mat4_identity (spec_hexagon_offset i j)))),
      ProgramSetUniform MainProgram ''height'' (UFloat (spec_height (cur_time d) (hexagon_heights d i j))),
      GlDrawArrays GL_LINE_LOOP 0 6]"
  by (simp add: hexagon_calls_def draw_hexagon_def Let_def spec_hexagon_offset_def spec_height_def
      cos_30_def GridRows_def GridColumns_def algebra_simps)

lemma diamond_calls_eq:
  "diamond_calls d model i j =
     [ProgramSetUniform MainProgram ''modelMatrix''
        (UMat4 (mat4_mul model (translate mat4_identity (spec_diamond_offset i j)))),
      ProgramSetUniform MainProgram ''height'' (UFloat (spec_height (cur_time d) (diamond_heights d i j))),
      GlDrawArrays GL_LINE_LOOP 0 4]"
  by (simp add: diamond_calls_def draw_diamond_def Let_def spec_diamond_offset_def spec_height_def
      cos_30_def GridRows_def GridColumns_def algebra_simps)

subsection \<open>The outline of a frame\<close>

lemma concat_replicate_replicate:
  "concat (replicate m (replicate n c)) = replicate (m * n) c"
  by (induction m) (simp_all add: replicate_add)

lemma filter_concat_const:
  assumes "\<And>x. filter P (f x) = ys"
  shows "filter P (concat (map f xs)) = concat (replicate (length xs) ys)"
  using assms by (induction xs) simp_all

lemma outline_hexagon_calls:
  "pass_outline (hexagon_calls d model i j) = [GlDrawArrays GL_LINE_LOOP 0 6]"
  by (simp add: pass_outline_def hexagon_calls_eq)

lemma outline_diamond_calls:
  "pass_outline (diamond_calls d model i j) = [GlDrawArrays GL_LINE_LOOP 0 4]"
  by (simp add: pass_outline_def diamond_calls_eq)

lemma outline_append: "pass_outline (xs @ ys) = pass_outline xs @ pass_outline ys"
  by (simp add: pass_outline_def)

lemma outline_tile_rows:
  assumes "\<And>i j. pass_outline (f i j) = [c]"
  shows "pass_outline (concat (map (\<lambda>i. concat (map (\<lambda>j. f i j) [0..<n])) [0..<m])) =
     replicate (m * n) c"
proof -
  have row: "filter in_outline (concat (map (\<lambda>j. f i j) [0..<n])) = replicate n c" for i
    using filter_concat_const [of in_outline "\<lambda>j. f i j" "[c]" "[0..<n]"] assms
    by (simp add: pass_outline_def concat_replicate_replicate [of n 1 c, simplified])
  show ?thesis
    using filter_concat_const [of in_outline "\<lambda>i. concat (map (\<lambda>j. f i j) [0..<n])" "replicate n c" "[0..<m]"] row
    by (simp add: pass_outline_def concat_replicate_replicate)
qed

lemma outline_grid_calls:
  "pass_outline (grid_calls d model) =
     replicate (GridRows * GridColumns) (GlDrawArrays GL_LINE_LOOP 0 6) @
     replicate ((GridRows - 1) * (GridColumns - 1)) (GlDrawArrays GL_LINE_LOOP 0 4)"
  unfolding grid_calls_def outline_append
    outline_tile_rows [of "hexagon_calls d model", OF outline_hexagon_calls]
    outline_tile_rows [of "diamond_calls d model", OF outline_diamond_calls]
  by (simp add: pass_outline_def)

lemma unbind_notin_grid_calls: "ShadowBufferUnbind \<notin> set (grid_calls d model)"
  by (auto simp: grid_calls_def hexagon_calls_eq diamond_calls_eq)

lemma unbind_position:
  "length (takeWhile (\<lambda>c. c \<noteq> ShadowBufferUnbind) (render d [])) =
     length (shadow_pass_head @ grid_calls d scene_model) + 1"
proof -
  have "takeWhile (\<lambda>c. c \<noteq> ShadowBufferUnbind)
          ((shadow_pass_head @ grid_calls d scene_model) @ shadow_pass_tail @ color_pass_head d @ grid_calls d scene_model) =
        (shadow_pass_head @ grid_calls d scene_model) @
          takeWhile (\<lambda>c. c \<noteq> ShadowBufferUnbind) (shadow_pass_tail @ color_pass_head d @ grid_calls d scene_model)"
    using unbind_notin_grid_calls [of d scene_model]
    by (intro takeWhile_append2) (auto simp: shadow_pass_head_def)
  then show ?thesis
    by (simp add: render_emit shadow_pass_tail_def)
qed

lemma shadow_pass_render:
  "shadow_pass (render d []) = shadow_pass_head @ grid_calls d scene_model @ shadow_pass_tail"
  unfolding shadow_pass_def unbind_position
  by (simp add: render_emit shadow_pass_tail_def)

lemma color_pass_render:
  "color_pass (render d []) = color_pass_head d @ grid_calls d scene_model"
  unfolding color_pass_def unbind_position
  by (simp add: render_emit shadow_pass_tail_def)

text \<open>
  Claim C6. Every frame, whatever the state and whatever calls came before, consists of a
  shadow pass followed by a colour pass. The shadow pass binds the shadow target, clears
  the depth buffer only, binds the shadow program, draws all hexagons and then all
  diamonds, and ends by unbinding the shadow target; only after that the colour pass
  clears colour and depth, binds the shadow texture and the main program and draws all
  tiles again.
\<close>

theorem shadow_pass_completes_before_color_pass: 
  "render d gl = gl @ shadow_pass (render d []) @ color_pass (render d []) \<and>
   pass_outline (shadow_pass (render d [])) =
     [ShadowBufferBind, GlClear [GL_DEPTH_BUFFER_BIT], ProgramBind ShadowProgram] @
     replicate (GridRows * GridColumns) (GlDrawArrays GL_LINE_LOOP 0 6) @
     replicate ((GridRows - 1) * (GridColumns - 1)) (GlDrawArrays GL_LINE_LOOP 0 4) @
     [ShadowBufferUnbind] \<and>
   pass_outline (color_pass (render d [])) =
     [GlClear [GL_COLOR_BUFFER_BIT, GL_DEPTH_BUFFER_BIT], ShadowBufferBindTexture,
      ProgramBind MainProgram] @
     replicate (GridRows * GridColumns) (GlDrawArrays GL_LINE_LOOP 0 6) @
     replicate ((GridRows - 1) * (GridColumns - 1)) (GlDrawArrays GL_LINE_LOOP 0 4)"
proof (intro conjI)
  show "render d gl = gl @ shadow_pass (render d []) @ color_pass (render d [])"
    unfolding shadow_pass_render color_pass_render by (simp add: render_emit)
  show "pass_outline (shadow_pass (render d [])) =
     [ShadowBufferBind, GlClear [GL_DEPTH_BUFFER_BIT], ProgramBind ShadowProgram] @
     replicate (GridRows * GridColumns) (GlDrawArrays GL_LINE_LOOP 0 6) @
     replicate ((GridRows - 1) * (GridColumns - 1)) (GlDrawArrays GL_LINE_LOOP 0 4) @
     [ShadowBufferUnbind]"
    unfolding shadow_pass_render outline_append outline_grid_calls
    by (simp add: pass_outline_def shadow_pass_head_def shadow_pass_tail_def)
  show "pass_outline (color_pass (render d [])) =
     [GlClear [GL_COLOR_BUFFER_BIT, GL_DEPTH_BUFFER_BIT], ShadowBufferBindTexture,
      ProgramBind MainProgram] @
     replicate (GridRows * GridColumns) (GlDrawArrays GL_LINE_LOOP 0 6) @
     replicate ((GridRows - 1) * (GridColumns - 1)) (GlDrawArrays GL_LINE_LOOP 0 4)"
    unfolding color_pass_render outline_append outline_grid_calls
    by (simp add: pass_outline_def color_pass_head_def)
qed

subsection \<open>The tiles drawn\<close>

lemma drawn_tiles_blocks:
  assumes "\<And>x m h rest. \<exists>m' h'. drawn_tiles m h (f x @ rest) = g x @ drawn_tiles m' h' rest"
  shows "\<exists>m' h'. drawn_tiles m h (concat (map f xs) @ rest) = concat (map g xs) @ drawn_tiles m' h' rest"
proof (induction xs arbitrary: m h)
  case Nil
  show ?case by auto
next
  case (Cons x xs)
  obtain m1 h1 where 1: "drawn_tiles m h (f x @ concat (map f xs) @ rest) =
      g x @ drawn_tiles m1 h1 (concat (map f xs) @ rest)"
    using assms by blast
  obtain m2 h2 where 2: "drawn_tiles m1 h1 (concat (map f xs) @ rest) =
      concat (map g xs) @ drawn_tiles m2 h2 rest"
    using Cons.IH by blast
  show ?case using 1 2 by auto
qed

lemma drawn_tiles_hexagon_calls:
  "\<exists>m' h'. drawn_tiles m h (hexagon_calls d model i j @ rest) =
     [spec_hexagon_tile d model i j] @ drawn_tiles m' h' rest"
  by (simp add: hexagon_calls_eq spec_hexagon_tile_def) blast

lemma drawn_tiles_diamond_calls:
  "\<exists>m' h'. drawn_tiles m h (diamond_calls d model i j @ rest) =
     [spec_diamond_tile d model i j] @ drawn_tiles m' h' rest"
  by (simp add: diamond_calls_eq spec_diamond_tile_def) blast

lemma drawn_tiles_rows:
  assumes "\<And>i j m h rest. \<exists>m' h'. drawn_tiles m h (f i j @ rest) = [t i j] @ drawn_tiles m' h' rest"
  shows "\<exists>m' h'. drawn_tiles m h (concat (map (\<lambda>i. concat (map (\<lambda>j. f i j) ys)) xs) @ rest) =
     map (\<lambda>(i, j). t i j) (List.product xs ys) @ drawn_tiles m' h' rest"
proof -
  have row: "\<exists>m' h'. drawn_tiles m h (concat (map (\<lambda>j. f i j) ys) @ rest) =
      concat (map (\<lambda>j. [t i j]) ys) @ drawn_tiles m' h' rest" for i m h rest
    by (rule drawn_tiles_blocks) (rule assms)
  have "\<exists>m' h'. drawn_tiles m h (concat (map (\<lambda>i. concat (map (\<lambda>j. f i j) ys)) xs) @ rest) =
      concat (map (\<lambda>i. concat (map (\<lambda>j. [t i j]) ys)) xs) @ drawn_tiles m' h' rest"
    by (rule drawn_tiles_blocks) (rule row)
  moreover have "concat (map (\<lambda>i. concat (map (\<lambda>j. [t i j]) ys)) xs) =
      map (\<lambda>(i, j). t i j) (List.product xs ys)"
    by (induction xs) (simp_all add: map_concat comp_def)
  ultimately show ?thesis by simp
qed

lemma drawn_tiles_grid_calls:
  "\<exists>m' h'. drawn_tiles m h (grid_calls d model @ rest) = spec_tiles d model @ drawn_tiles m' h' rest"
proof -
  obtain m1 h1 where 1: "drawn_tiles m h
      (concat (map (\<lambda>i. concat (map (\<lambda>j. hexagon_calls d model i j) [0..<GridColumns])) [0..<GridRows]) @
       (GeometryBind DiamondGeometry #
        concat (map (\<lambda>i. concat (map (\<lambda>j. diamond_calls d model i j) [0..<GridColumns - 1])) [0..<GridRows - 1]) @ rest)) =
      map (\<lambda>(i, j). spec_hexagon_tile d model i j) (List.product [0..<GridRows] [0..<GridColumns]) @
      drawn_tiles m1 h1 (GeometryBind DiamondGeometry #
        concat (map (\<lambda>i. concat (map (\<lambda>j. diamond_calls d model i j) [0..<GridColumns - 1])) [0..<GridRows - 1]) @ rest)"
    using drawn_tiles_rows [of "hexagon_calls d model" "spec_hexagon_tile d model", OF drawn_tiles_hexagon_calls]
    by blast
  obtain m2 h2 where 2: "drawn_tiles m1 h1
      (concat (map (\<lambda>i. concat (map (\<lambda>j. diamond_calls d model i j) [0..<GridColumns - 1])) [0..<GridRows - 1]) @ rest) =
      map (\<lambda>(i, j). spec_diamond_tile d model i j) (List.product [0..<GridRows - 1] [0..<GridColumns - 1]) @
      drawn_tiles m2 h2 rest"
    using drawn_tiles_rows [of "diamond_calls d model" "spec_diamond_tile d model", OF drawn_tiles_diamond_calls]
    by blast
  have "drawn_tiles m h (grid_calls d model @ rest) = spec_tiles d model @ drawn_tiles m2 h2 rest"
    unfolding grid_calls_def spec_tiles_def using 1 2 by simp
  then show ?thesis by blast
qed

lemma drawn_tiles_draw_grid:
  "drawn_tiles m h (draw_grid d program model []) = spec_tiles d model"
  using drawn_tiles_grid_calls [of m h d model "[]"] by (simp add: draw_grid_emit)

lemma drawn_tiles_shadow_pass:
  "drawn_tiles m h (shadow_pass (render d [])) = spec_tiles d scene_model"
proof -
  obtain m' h' where "drawn_tiles m h (grid_calls d scene_model @ shadow_pass_tail) =
      spec_tiles d scene_model @ drawn_tiles m' h' shadow_pass_tail"
    using drawn_tiles_grid_calls by blast
  then show ?thesis
    by (simp add: shadow_pass_render shadow_pass_head_def shadow_pass_tail_def)
qed

lemma drawn_tiles_color_pass:
  "drawn_tiles m h (color_pass (render d [])) = spec_tiles d scene_model"
proof -
  have "drawn_tiles m h (color_pass_head d @ grid_calls d scene_model @ []) =
      drawn_tiles m h (grid_calls d scene_model @ [])"
    by (simp add: color_pass_head_def)
  moreover obtain m' h' where "drawn_tiles m h (grid_calls d scene_model @ []) =
      spec_tiles d scene_model @ drawn_tiles m' h' []"
    using drawn_tiles_grid_calls by blast
  ultimately show ?thesis
    by (simp add: color_pass_render)
qed

lemma spec_tiles_hexagon_nth:
  assumes "i < GridRows" "j < GridColumns"
  shows "spec_tiles d model ! (i * GridColumns + j) = spec_hexagon_tile d model i j"
proof -
  have lt: "i * GridColumns + j < GridRows * GridColumns"
  proof -
    have "i * GridColumns + j < i * GridColumns + GridColumns" using assms by simp
    also have "\<dots> = Suc i * GridColumns" by simp
    also have "\<dots> \<le> GridRows * GridColumns" using assms by (intro mult_le_mono1) simp
    finally show ?thesis .
  qed
  have "List.product [0..<GridRows] [0..<GridColumns] ! (i * GridColumns + j) = (i, j)"
    using lt assms by (simp add: product_nth)
  then show ?thesis using lt
    by (simp add: spec_tiles_def nth_append)
qed

lemma spec_tiles_diamond_nth:
  assumes "i < GridRows - 1" "j < GridColumns - 1"
  shows "spec_tiles d model ! (GridRows * GridColumns + i * (GridColumns - 1) + j) =
     spec_diamond_tile d model i j"
proof -
  have lt: "i * (GridColumns - 1) + j < (GridRows - 1) * (GridColumns - 1)"
  proof -
    have "i * (GridColumns - 1) + j < i * (GridColumns - 1) + (GridColumns - 1)" using assms by simp
    also have "\<dots> = Suc i * (GridColumns - 1)" by simp
    also have "\<dots> \<le> (GridRows - 1) * (GridColumns - 1)" using assms by (intro mult_le_mono1) simp
    finally show ?thesis .
  qed
  have "List.product [0..<GridRows - 1] [0..<GridColumns - 1] ! (i * (GridColumns - 1) + j) = (i, j)"
    using lt assms by (simp add: product_nth)
  then show ?thesis using lt
    by (simp add: spec_tiles_def nth_append add.assoc)
qed

section \<open>Initialisation of the heights\<close>

lemma nth_phase_rand_calls: "nth_phase (c\<lparr>rand_calls := k\<rparr>) = nth_phase c"
  by (simp add: fun_eq_iff nth_phase_def)

lemma hexagon_row_filled:
  "fold (\<lambda>j. set_hexagon_height i j) [0..<n] (d, c) =
     (d\<lparr>hexagon_heights := (\<lambda>i' j'. if i' = i \<and> j' < n then nth_phase c (rand_calls c + j')
                                     else hexagon_heights d i' j')\<rparr>,
      c\<lparr>rand_calls := rand_calls c + n\<rparr>)"
proof (induction n)
  case 0
  show ?case by simp
next
  case (Suc n)
  have "(\<lambda>i' j'. if i' = i \<and> j' < n then nth_phase c (rand_calls c + j') else hexagon_heights d i' j')
          (i := ((\<lambda>i' j'. if i' = i \<and> j' < n then nth_phase c (rand_calls c + j') else hexagon_heights d i' j') i)
             (n := nth_phase c (rand_calls c + n))) =
        (\<lambda>i' j'. if i' = i \<and> j' < Suc n then nth_phase c (rand_calls c + j') else hexagon_heights d i' j')"
    by (auto simp: fun_eq_iff less_Suc_eq)
  then show ?case
    using Suc by (simp add: set_hexagon_height_def random_phase_def std_rand_def nth_phase_def)
qed

lemma hexagon_rows_filled:
  "fold (\<lambda>i. fold (\<lambda>j. set_hexagon_height i j) [0..<n]) [0..<m] (d, c) =
     (d\<lparr>hexagon_heights := filled c (rand_calls c) m n (hexagon_heights d)\<rparr>,
      c\<lparr>rand_calls := rand_calls c + m * n\<rparr>)"
proof (induction m)
  case 0
  show ?case by (simp add: filled_def)
next
  case (Suc m)
  have eq: "(\<lambda>i' j'. if i' = m \<and> j' < n then nth_phase c (rand_calls c + m * n + j')
                  else filled c (rand_calls c) m n (hexagon_heights d) i' j') =
        filled c (rand_calls c) (Suc m) n (hexagon_heights d)"
    by (auto simp: fun_eq_iff filled_def less_Suc_eq)
  have "fold (\<lambda>i. fold (\<lambda>j. set_hexagon_height i j) [0..<n]) [0..<Suc m] (d, c) =
      fold (\<lambda>j. set_hexagon_height m j) [0..<n]
        (d\<lparr>hexagon_heights := filled c (rand_calls c) m n (hexagon_heights d)\<rparr>,
         c\<lparr>rand_calls := rand_calls c + m * n\<rparr>)"
    using Suc by simp
  also have "\<dots> =
      (d\<lparr>hexagon_heights :=
           (\<lambda>i' j'. if i' = m \<and> j' < n then nth_phase c (rand_calls c + m * n + j')
                  else filled c (rand_calls c) m n (hexagon_heights d) i' j')\<rparr>,
       c\<lparr>rand_calls := rand_calls c + Suc m * n\<rparr>)"
    unfolding hexagon_row_filled by (simp add: nth_phase_rand_calls add.assoc cong: if_cong)
  finally show ?case unfolding eq .
qed

lemma diamond_row_filled:
  "fold (\<lambda>j. set_diamond_height i j) [0..<n] (d, c) =
     (d\<lparr>diamond_heights := (\<lambda>i' j'. if i' = i \<and> j' < n then nth_phase c (rand_calls c + j')
                                     else diamond_heights d i' j')\<rparr>,
      c\<lparr>rand_calls := rand_calls c + n\<rparr>)"
proof (induction n)
  case 0
  show ?case by simp
next
  case (Suc n)
  have "(\<lambda>i' j'. if i' = i \<and> j' < n then nth_phase c (rand_calls c + j') else diamond_heights d i' j')
          (i := ((\<lambda>i' j'. if i' = i \<and> j' < n then nth_phase c (rand_calls c + j') else diamond_heights d i' j') i)
             (n := nth_phase c (rand_calls c + n))) =
        (\<lambda>i' j'. if i' = i \<and> j' < Suc n then nth_phase c (rand_calls c + j') else diamond_heights d i' j')"
    by (auto simp: fun_eq_iff less_Suc_eq)
  then show ?case
    using Suc by (simp add: set_diamond_height_def random_phase_def std_rand_def nth_phase_def)
qed

lemma diamond_rows_filled:
  "fold (\<lambda>i. fold (\<lambda>j. set_diamond_height i j) [0..<n]) [0..<m] (d, c) =
     (d\<lparr>diamond_heights := filled c (rand_calls c) m n (diamond_heights d)\<rparr>,
      c\<lparr>rand_calls := rand_calls c + m * n\<rparr>)"
proof (induction m)
  case 0
  show ?case by (simp add: filled_def)
next
  case (Suc m)
  have eq: "(\<lambda>i' j'. if i' = m \<and> j' < n then nth_phase c (rand_calls c + m * n + j')
                  else filled c (rand_calls c) m n (diamond_heights d) i' j') =
        filled c (rand_calls c) (Suc m) n (diamond_heights d)"
    by (auto simp: fun_eq_iff filled_def less_Suc_eq)
  have "fold (\<lambda>i. fold (\<lambda>j. set_diamond_height i j) [0..<n]) [0..<Suc m] (d, c) =
      fold (\<lambda>j. set_diamond_height m j) [0..<n]
        (d\<lparr>diamond_heights := filled c (rand_calls c) m n (diamond_heights d)\<rparr>,
         c\<lparr>rand_calls := rand_calls c + m * n\<rparr>)"
    using Suc by simp
  also have "\<dots> =
      (d\<lparr>diamond_heights :=
           (\<lambda>i' j'. if i' = m \<and> j' < n then nth_phase c (rand_calls c + m * n + j')
                  else filled c (rand_calls c) m n (diamond_heights d) i' j')\<rparr>,
       c\<lparr>rand_calls := rand_calls c + Suc m * n\<rparr>)"
    unfolding diamond_row_filled by (simp add: nth_phase_rand_calls add.assoc cong: if_cong)
  finally show ?case unfolding eq .
qed

lemma initialize_hexagon_heights_eq:
  "initialize_hexagon_heights (d, c) =
     (d\<lparr>hexagon_heights := filled c (rand_calls c) GridRows GridColumns (hexagon_heights d)\<rparr>,
      c\<lparr>rand_calls := rand_calls c + GridRows * GridColumns\<rparr>)"
proof -
  have "initialize_hexagon_heights (d, c) =
      fold (\<lambda>i. fold (\<lambda>j. set_hexagon_height i j) [0..<GridColumns]) [0..<GridRows] (d, c)"
    unfolding initialize_hexagon_heights_def for_loop_fold ..
  then show ?thesis by (simp only: hexagon_rows_filled)
qed

lemma initialize_diamond_heights_eq:
  "initialize_diamond_heights (d, c) =
     (d\<lparr>diamond_heights := filled c (rand_calls c) (GridRows - 1) (GridColumns - 1) (diamond_heights d)\<rparr>,
      c\<lparr>rand_calls := rand_calls c + (GridRows - 1) * (GridColumns - 1)\<rparr>)"
proof -
  have "initialize_diamond_heights (d, c) =
      fold (\<lambda>i. fold (\<lambda>j. set_diamond_height i j) [0..<GridColumns - 1]) [0..<GridRows - 1] (d, c)"
    unfolding initialize_diamond_heights_def for_loop_fold ..
  then show ?thesis by (simp only: diamond_rows_filled)
qed

lemma filled_rand_calls: "filled (c\<lparr>rand_calls := k'\<rparr>) k m n a = filled c k m n a"
  by (simp add: filled_def nth_phase_rand_calls cong: if_cong)

lemma initialize_heights_eq:
  "initialize_heights (d, c) =
     (d\<lparr>hexagon_heights := filled c (rand_calls c) GridRows GridColumns (hexagon_heights d),
        diamond_heights := filled c (rand_calls c + GridRows * GridColumns) (GridRows - 1)
                             (GridColumns - 1) (diamond_heights d)\<rparr>,
      c\<lparr>rand_calls := rand_calls c + GridRows * GridColumns + (GridRows - 1) * (GridColumns - 1)\<rparr>)"
  unfolding initialize_heights_def initialize_hexagon_heights_eq initialize_diamond_heights_eq
  by (simp add: filled_rand_calls)

lemma Demo_demo:
  "fst (Demo width height h0 d0 c gl) =
     \<lparr>hexagon_heights = filled c (rand_calls c) GridRows GridColumns h0,
      diamond_heights = filled c (rand_calls c + GridRows * GridColumns) (GridRows - 1)
                          (GridColumns - 1) d0,
      window_width = width, window_height = height, cur_time = 0\<rparr>"
  unfolding Demo_def Let_def initialize_heights_eq by simp

lemma Demo_stdlib:
  "fst (snd (Demo width height h0 d0 c gl)) =
     c\<lparr>rand_calls := rand_calls c + GridRows * GridColumns + (GridRows - 1) * (GridColumns - 1)\<rparr>"
  unfolding Demo_def Let_def initialize_heights_eq by simp

lemma nth_phase_bounds:
  assumes "0 < RAND_MAX c" "0 \<le> rand_source c k" "rand_source c k \<le> RAND_MAX c"
  shows "0 \<le> nth_phase c k \<and> nth_phase c k \<le> 2.5"
proof -
  have "real_of_int (rand_source c k) / real_of_int (RAND_MAX c) \<le> 1"
    using assms by (simp add: divide_le_eq_1)
  moreover have "0 \<le> real_of_int (rand_source c k) / real_of_int (RAND_MAX c)"
    using assms by simp
  ultimately show ?thesis by (simp add: nth_phase_def)
qed

text \<open>
  Claim C10. Construction hands the values of the random source to the slots in a fixed
  order: hexagon slot \<open>(i, j)\<close> gets the phase made from value number
  \<open>i * GridColumns + j\<close> (counted from the calls made before),
  diamond slot \<open>(i, j)\<close> the one made from value number
  \<open>GridRows * GridColumns + i * (GridColumns - 1) + j\<close>. After the hexagon loops exactly
  \<open>GridRows * GridColumns\<close> values are consumed and no diamond phase is written yet.
\<close>

theorem phases_drawn_in_row_major_order:
  "(i < GridRows \<and> j < GridColumns \<longrightarrow>
      hexagon_heights (fst (Demo width height h0 d0 c gl)) i j =
        2.5 * real_of_int (rand_source c (rand_calls c + (i * GridColumns + j))) /
          real_of_int (RAND_MAX c)) \<and>
   (i < GridRows - 1 \<and> j < GridColumns - 1 \<longrightarrow>
      diamond_heights (fst (Demo width height h0 d0 c gl)) i j =
        2.5 * real_of_int (rand_source c
                (rand_calls c + GridRows * GridColumns + (i * (GridColumns - 1) + j))) /
          real_of_int (RAND_MAX c)) \<and>
   rand_calls (snd (initialize_hexagon_heights (d, c))) = rand_calls c + GridRows * GridColumns \<and>
   diamond_heights (fst (initialize_hexagon_heights (d, c))) = diamond_heights d \<and>
   rand_calls (fst (snd (Demo width height h0 d0 c gl))) =
     rand_calls c + GridRows * GridColumns + (GridRows - 1) * (GridColumns - 1)"
  unfolding Demo_demo Demo_stdlib initialize_hexagon_heights_eq
  by (simp add: filled_def nth_phase_def add.assoc)

text \<open>
  Claim C10, at slot \<open>(1, 2)\<close> of both grids for the random source that counts 0, 1, 2, ...:
  the hexagon gets value 14, the diamond value 144 + 13.
\<close>

theorem phases_drawn_in_row_major_order_witness:
  "(1 < GridRows \<and> 2 < GridColumns) \<and> (1 < GridRows - 1 \<and> 2 < GridColumns - 1) \<and>
   hexagon_heights (fst (Demo 800 800 (\<lambda>i j. 0) (\<lambda>i j. 0) counting_stdlib [])) 1 2 = 2.5 * 14 / 32767 \<and>
   diamond_heights (fst (Demo 800 800 (\<lambda>i j. 0) (\<lambda>i j. 0) counting_stdlib [])) 1 2 = 2.5 * 157 / 32767"
  using phases_drawn_in_row_major_order [of 1 2 800 800 "\<lambda>i j. 0" "\<lambda>i j. 0" counting_stdlib "[]"]
  by (simp add: GridRows_def GridColumns_def counting_stdlib_def)

text \<open>
  Claim C4, amended. With a random source that returns values from 0 to \<open>RAND_MAX\<close>, the
  hexagon loops of \<open>initialize_heights\<close> call \<open>std::rand\<close> exactly
  \<open>GridRows * GridColumns\<close> times and the diamond loops exactly
  \<open>(GridRows - 1) * (GridColumns - 1)\<close> times, and every phase stored lies in the closed
  interval from 0 to 2.5.
\<close>

theorem phases_counted_and_in_closed_range:
  assumes "0 < RAND_MAX c" and "\<forall>n. 0 \<le> rand_source c n \<and> rand_source c n \<le> RAND_MAX c"
  shows "rand_calls (snd (initialize_hexagon_heights (d, c))) = rand_calls c + GridRows * GridColumns \<and>
   rand_calls (snd (initialize_diamond_heights (d, c))) =
     rand_calls c + (GridRows - 1) * (GridColumns - 1) \<and>
   rand_calls (snd (initialize_heights (d, c))) =
     rand_calls c + GridRows * GridColumns + (GridRows - 1) * (GridColumns - 1) \<and>
   (i < GridRows \<and> j < GridColumns \<longrightarrow>
      0 \<le> hexagon_heights (fst (initialize_heights (d, c))) i j \<and>
      hexagon_heights (fst (initialize_heights (d, c))) i j \<le> 2.5) \<and>
   (i < GridRows - 1 \<and> j < GridColumns - 1 \<longrightarrow>
      0 \<le> diamond_heights (fst (initialize_heights (d, c))) i j \<and>
      diamond_heights (fst (initialize_heights (d, c))) i j \<le> 2.5)"
  unfolding initialize_heights_eq initialize_hexagon_heights_eq initialize_diamond_heights_eq
  using nth_phase_bounds [OF assms(1)] assms(2)
  by (simp add: filled_def)

text \<open>
  Claim C4, amended, at slot \<open>(3, 4)\<close> of both grids for the random source that counts
  0, 1, 2, ...: 265 calls, and both phases within the interval.
\<close>

theorem phases_counted_and_in_closed_range_witness:
  "0 < RAND_MAX counting_stdlib \<and>
   (\<forall>n. 0 \<le> rand_source counting_stdlib n \<and> rand_source counting_stdlib n \<le> RAND_MAX counting_stdlib) \<and>
   (3 < GridRows \<and> 4 < GridColumns) \<and> (3 < GridRows - 1 \<and> 4 < GridColumns - 1) \<and>
   rand_calls (snd (initialize_heights (example_demo, counting_stdlib))) = 265 \<and>
   0 \<le> hexagon_heights (fst (initialize_heights (example_demo, counting_stdlib))) 3 4 \<and>
   hexagon_heights (fst (initialize_heights (example_demo, counting_stdlib))) 3 4 \<le> 2.5 \<and>
   0 \<le> diamond_heights (fst (initialize_heights (example_demo, counting_stdlib))) 3 4 \<and>
   diamond_heights (fst (initialize_heights (example_demo, counting_stdlib))) 3 4 \<le> 2.5"
proof -
  have 1: "0 < RAND_MAX counting_stdlib" by (simp add: counting_stdlib_def)
  have 2: "\<forall>n. 0 \<le> rand_source counting_stdlib n \<and> rand_source counting_stdlib n \<le> RAND_MAX counting_stdlib"
    by (simp add: counting_stdlib_def)
  have 3: "(3::nat) < GridRows \<and> (4::nat) < GridColumns \<and> 3 < GridRows - 1 \<and> 4 < GridColumns - 1"
    by (simp add: GridRows_def GridColumns_def)
  have 4: "rand_calls counting_stdlib + GridRows * GridColumns + (GridRows - 1) * (GridColumns - 1) = 265"
    by (simp add: GridRows_def GridColumns_def counting_stdlib_def)
  show ?thesis
    using phases_counted_and_in_closed_range [OF 1 2, of example_demo 3 4] 1 2 3 4 by simp
qed

text \<open>
  Claim C4 as stated fails: when \<open>std::rand\<close> returns \<open>RAND_MAX\<close>, the phase stored is
  2.5, which is not strictly less than 2.5.
\<close>

theorem phase_reaches_upper_bound:
  "rand_source saturated_stdlib 0 = RAND_MAX saturated_stdlib \<and>
   hexagon_heights (fst (initialize_heights (example_demo, saturated_stdlib))) 0 0 = 2.5 \<and>
   \<not> hexagon_heights (fst (initialize_heights (example_demo, saturated_stdlib))) 0 0 < 2.5"
  unfolding initialize_heights_eq
  by (simp add: filled_def nth_phase_def saturated_stdlib_def GridRows_def GridColumns_def)

section \<open>Grid layout and tile heights\<close>

lemma length_spec_tiles:
  "length (spec_tiles d model) = GridRows * GridColumns + (GridRows - 1) * (GridColumns - 1)"
  by (simp add: spec_tiles_def)

lemma tile_matrix_spec_tiles:
  "map tile_matrix (spec_tiles d model) = map tile_matrix (spec_tiles d' model)"
  by (simp add: spec_tiles_def spec_hexagon_tile_def spec_diamond_tile_def case_prod_unfold)

lemma drawn_tiles_append:
  "\<exists>m' h'. drawn_tiles m h (xs @ ys) = drawn_tiles m h xs @ drawn_tiles m' h' ys"
proof (induction xs arbitrary: m h)
  case Nil
  show ?case by auto
next
  case (Cons c xs)
  show ?case
  proof (cases c)
    case (ProgramSetUniform p name v)
    then show ?thesis using Cons.IH by simp
  next
    case (GlDrawArrays mode first count)
    then show ?thesis using Cons.IH by simp
  qed (simp_all add: Cons.IH)
qed

lemma drawn_tiles_after_calls:
  "drawn_tiles m h (draw_grid d program model gl) = drawn_tiles m h gl @ spec_tiles d model"
proof -
  obtain m1 h1 where 1: "drawn_tiles m h (gl @ grid_calls d model) =
      drawn_tiles m h gl @ drawn_tiles m1 h1 (grid_calls d model)"
    using drawn_tiles_append by blast
  have "drawn_tiles m1 h1 (grid_calls d model) = spec_tiles d model"
    using drawn_tiles_grid_calls [of m1 h1 d model "[]"] by simp
  then show ?thesis using 1 by (simp add: draw_grid_emit)
qed

text \<open>
  Claim C1. The tile drawn for hexagon slot \<open>(i, j)\<close>, the \<open>(i * GridColumns + j)\<close>-th tile
  of \<open>draw_grid\<close>, has the model matrix \<open>model * translate (x, y, 0)\<close> with
  \<open>x = 2 cos(pi/6) (j - (GridColumns - 1) / 2)\<close> and \<open>y = 2 (i - (GridRows - 1) / 2)\<close>; the
  tile drawn for diamond slot \<open>(i, j)\<close>, which follows the \<open>GridRows * GridColumns\<close>
  hexagons in row-major order, has \<open>x = 2 cos(pi/6) (j - (GridColumns - 2) / 2)\<close> and
  \<open>y = 2 (i - (GridRows - 2) / 2)\<close>. The matrices depend on nothing but the indices, the grid
  size and \<open>model\<close>: any other state of the demo, any other program argument and any earlier
  calls give the same matrices again.
\<close>

theorem tile_offsets_follow_grid_layout:
  "(i < GridRows \<and> j < GridColumns \<longrightarrow>
      tile_matrix (drawn_tiles None None (draw_grid d program model []) ! (i * GridColumns + j)) =
        Some (UMat4 (mat4_mul model (translate mat4_identity
          (Vec3 (2 * cos (pi / 6) * (real j - (real GridColumns - 1) / 2))
                (2 * (real i - (real GridRows - 1) / 2)) 0))))) \<and>
   (i < GridRows - 1 \<and> j < GridColumns - 1 \<longrightarrow>
      tile_matrix (drawn_tiles None None (draw_grid d program model []) !
                     (GridRows * GridColumns + i * (GridColumns - 1) + j)) =
        Some (UMat4 (mat4_mul model (translate mat4_identity
          (Vec3 (2 * cos (pi / 6) * (real j - (real GridColumns - 2) / 2))
                (2 * (real i - (real GridRows - 2) / 2)) 0))))) \<and>
   map tile_matrix (drawn_tiles m h (draw_grid d' program' model gl)) =
     map tile_matrix (drawn_tiles m h gl) @
     map tile_matrix (drawn_tiles None None (draw_grid d program model []))"
proof (intro conjI impI)
  assume "i < GridRows \<and> j < GridColumns"
  then show "tile_matrix (drawn_tiles None None (draw_grid d program model []) ! (i * GridColumns + j)) =
        Some (UMat4 (mat4_mul model (translate mat4_identity
          (Vec3 (2 * cos (pi / 6) * (real j - (real GridColumns - 1) / 2))
                (2 * (real i - (real GridRows - 1) / 2)) 0))))"
    using spec_tiles_hexagon_nth [of i j d model]
    by (simp add: drawn_tiles_draw_grid spec_hexagon_tile_def spec_hexagon_offset_def)
next
  assume "i < GridRows - 1 \<and> j < GridColumns - 1"
  then show "tile_matrix (drawn_tiles None None (draw_grid d program model []) !
                     (GridRows * GridColumns + i * (GridColumns - 1) + j)) =
        Some (UMat4 (mat4_mul model (translate mat4_identity
          (Vec3 (2 * cos (pi / 6) * (real j - (real GridColumns - 2) / 2))
                (2 * (real i - (real GridRows - 2) / 2)) 0))))"
    using spec_tiles_diamond_nth [of i j d model]
    by (simp add: drawn_tiles_draw_grid spec_diamond_tile_def spec_diamond_offset_def)
next
  show "map tile_matrix (drawn_tiles m h (draw_grid d' program' model gl)) =
     map tile_matrix (drawn_tiles m h gl) @
     map tile_matrix (drawn_tiles None None (draw_grid d program model []))"
    unfolding drawn_tiles_after_calls drawn_tiles_draw_grid
    using tile_matrix_spec_tiles [of d' model d] by simp
qed

text \<open>
  Claim C1, at slot \<open>(5, 5)\<close>: the hexagon is placed at \<open>(- cos(pi/6), - 1)\<close>, the diamond
  at the origin.
\<close>

theorem tile_offsets_follow_grid_layout_witness:
  "(5 < GridRows \<and> 5 < GridColumns) \<and> (5 < GridRows - 1 \<and> 5 < GridColumns - 1) \<and>
   tile_matrix (drawn_tiles None None (draw_grid example_demo MainProgram mat4_identity []) ! 65) =
     Some (UMat4 (mat4_mul mat4_identity (translate mat4_identity (Vec3 (- cos (pi / 6)) (- 1) 0)))) \<and>
   tile_matrix (drawn_tiles None None (draw_grid example_demo MainProgram mat4_identity []) ! 204) =
     Some (UMat4 (mat4_mul mat4_identity (translate mat4_identity (Vec3 0 0 0))))"
  using tile_offsets_follow_grid_layout [of 5 5 example_demo MainProgram mat4_identity None None example_demo MainProgram "[]"]
  by (simp add: GridRows_def GridColumns_def)

text \<open>
  Claim C2. The height handed to the shader for the tile of slot \<open>(i, j)\<close> is
  \<open>2.5 (1 + sin (t + p))\<close>, where \<open>t\<close> is the clock and \<open>p\<close> the phase of the slot, in the
  hexagon grid and in the diamond grid; and this value lies between 0 and 5. The state
  \<open>d\<close> is arbitrary, so \<open>t\<close> and \<open>p\<close> range over all reals.
\<close>

theorem tile_height_formula_and_range:
  "(i < GridRows \<and> j < GridColumns \<longrightarrow>
      tile_height (drawn_tiles None None (draw_grid d program model []) ! (i * GridColumns + j)) =
        Some (UFloat (2.5 * (1 + sin (cur_time d + hexagon_heights d i j)))) \<and>
      0 \<le> 2.5 * (1 + sin (cur_time d + hexagon_heights d i j)) \<and>
      2.5 * (1 + sin (cur_time d + hexagon_heights d i j)) \<le> 5) \<and>
   (i < GridRows - 1 \<and> j < GridColumns - 1 \<longrightarrow>
      tile_height (drawn_tiles None None (draw_grid d program model []) !
                     (GridRows * GridColumns + i * (GridColumns - 1) + j)) =
        Some (UFloat (2.5 * (1 + sin (cur_time d + diamond_heights d i j)))) \<and>
      0 \<le> 2.5 * (1 + sin (cur_time d + diamond_heights d i j)) \<and>
      2.5 * (1 + sin (cur_time d + diamond_heights d i j)) \<le> 5)"
proof -
  have lin: "- 1 \<le> s \<Longrightarrow> s \<le> 1 \<Longrightarrow> 0 \<le> 2.5 * (1 + s) \<and> 2.5 * (1 + s) \<le> 5" for s :: real
    by simp
  have range: "0 \<le> 2.5 * (1 + sin x) \<and> 2.5 * (1 + sin x) \<le> 5" for x :: real
    by (rule lin) (rule sin_ge_minus_one, rule sin_le_one)
  show ?thesis
    using range spec_tiles_hexagon_nth [of i j d model] spec_tiles_diamond_nth [of i j d model]
    by (simp add: drawn_tiles_draw_grid spec_hexagon_tile_def spec_diamond_tile_def
        spec_height_def)
qed

text \<open>
  Claim C2, at slot \<open>(0, 0)\<close> of both grids with clock 0 and phase 0: the height is 2.5.
\<close>

theorem tile_height_formula_and_range_witness:
  "(0 < GridRows \<and> 0 < GridColumns) \<and> (0 < GridRows - 1 \<and> 0 < GridColumns - 1) \<and>
   tile_height (drawn_tiles None None (draw_grid example_demo MainProgram mat4_identity []) ! 0) =
     Some (UFloat 2.5) \<and>
   tile_height (drawn_tiles None None (draw_grid example_demo MainProgram mat4_identity []) ! 144) =
     Some (UFloat 2.5)"
  using tile_height_formula_and_range [of 0 0 example_demo MainProgram mat4_identity]
  by (simp add: GridRows_def GridColumns_def example_demo_def)

text \<open>
  Claim C7. The tiles drawn by the shadow pass and the tiles drawn by the colour pass of a
  frame are the same list: all hexagons in row-major order, then all diamonds in row-major
  order, each with the model matrix and the height of its slot, as line loops of 6 and of 4
  vertices.
\<close>

theorem both_passes_draw_same_tiles:
  "drawn_tiles m h (shadow_pass (render d [])) =
     spec_tiles d (rotate mat4_identity (0.25 * pi) (Vec3 0 0 1)) \<and>
   drawn_tiles m' h' (color_pass (render d [])) =
     spec_tiles d (rotate mat4_identity (0.25 * pi) (Vec3 0 0 1)) \<and>
   render d [] = shadow_pass (render d []) @ color_pass (render d [])"
  unfolding drawn_tiles_shadow_pass drawn_tiles_color_pass
  by (simp add: scene_model_def shadow_pass_def color_pass_def)

text \<open>
  Claim C9. Advancing the clock by \<open>2 pi\<close> changes no tile height, and so no call of a
  frame (over the reals).
\<close>

theorem tile_height_periodic:
  "map tile_height (drawn_tiles m h (draw_grid (d\<lparr>cur_time := t + 2 * pi\<rparr>) program model gl)) =
   map tile_height (drawn_tiles m h (draw_grid (d\<lparr>cur_time := t\<rparr>) program model gl)) \<and>
   render (d\<lparr>cur_time := t + 2 * pi\<rparr>) gl = render (d\<lparr>cur_time := t\<rparr>) gl"
proof -
  have per: "spec_height (t + 2 * pi) p = spec_height t p" for p
  proof -
    have "t + 2 * pi + p = (t + p) + 2 * pi" by simp
    then show ?thesis unfolding spec_height_def by (simp only: sin_periodic)
  qed
  have "grid_calls (d\<lparr>cur_time := t + 2 * pi\<rparr>) mm = grid_calls (d\<lparr>cur_time := t\<rparr>) mm" for mm
    by (simp add: grid_calls_def hexagon_calls_eq diamond_calls_eq per)
  then show ?thesis
    by (simp add: draw_grid_emit render_emit color_pass_head_def camera_view_projection_def)
qed

section \<open>The program that receives the per-tile uniforms\<close>

lemma targets_blocks:
  assumes "\<And>x rest. tile_uniform_targets b (f x @ rest) = ts @ tile_uniform_targets b rest"
  shows "tile_uniform_targets b (concat (map f xs) @ rest) =
     concat (replicate (length xs) ts) @ tile_uniform_targets b rest"
  using assms by (induction xs) simp_all

lemma targets_hexagon_calls:
  "tile_uniform_targets b (hexagon_calls d model i j @ rest) =
     [(b, MainProgram, ''modelMatrix''), (b, MainProgram, ''height'')] @ tile_uniform_targets b rest"
  by (simp add: hexagon_calls_eq)

lemma targets_diamond_calls:
  "tile_uniform_targets b (diamond_calls d model i j @ rest) =
     [(b, MainProgram, ''modelMatrix''), (b, MainProgram, ''height'')] @ tile_uniform_targets b rest"
  by (simp add: diamond_calls_eq)

lemma concat_replicate_concat:
  "concat (replicate m (concat (replicate n ts))) = concat (replicate (m * n) ts)"
  by (induction m) (simp_all add: replicate_add)

lemma targets_rows:
  assumes "\<And>i j rest. tile_uniform_targets b (f i j @ rest) = ts @ tile_uniform_targets b rest"
  shows "tile_uniform_targets b (concat (map (\<lambda>i. concat (map (\<lambda>j. f i j) [0..<n])) [0..<m]) @ rest) =
     concat (replicate (m * n) ts) @ tile_uniform_targets b rest"
proof -
  have row: "tile_uniform_targets b (concat (map (\<lambda>j. f i j) [0..<n]) @ rest) =
      concat (replicate n ts) @ tile_uniform_targets b rest" for i rest
    using targets_blocks [of b "\<lambda>j. f i j" ts "[0..<n]" rest] assms by simp
  show ?thesis
    using targets_blocks [of b "\<lambda>i. concat (map (\<lambda>j. f i j) [0..<n])" "concat (replicate n ts)" "[0..<m]" rest] row
    by (simp add: concat_replicate_concat)
qed

lemma targets_grid_calls:
  "tile_uniform_targets b (grid_calls d model @ rest) =
     concat (replicate (GridRows * GridColumns + (GridRows - 1) * (GridColumns - 1))
       [(b, MainProgram, ''modelMatrix''), (b, MainProgram, ''height'')]) @
     tile_uniform_targets b rest"
proof -
  have "tile_uniform_targets b (grid_calls d model @ rest) =
      tile_uniform_targets b
        (concat (map (\<lambda>i. concat (map (\<lambda>j. hexagon_calls d model i j) [0..<GridColumns])) [0..<GridRows]) @
         (GeometryBind DiamondGeometry #
          concat (map (\<lambda>i. concat (map (\<lambda>j. diamond_calls d model i j) [0..<GridColumns - 1])) [0..<GridRows - 1]) @ rest))"
    by (simp add: grid_calls_def)
  also have "\<dots> = concat (replicate (GridRows * GridColumns)
        [(b, MainProgram, ''modelMatrix''), (b, MainProgram, ''height'')]) @
      tile_uniform_targets b
        (concat (map (\<lambda>i. concat (map (\<lambda>j. diamond_calls d model i j) [0..<GridColumns - 1])) [0..<GridRows - 1]) @ rest)"
    unfolding targets_rows [of b "hexagon_calls d model", OF targets_hexagon_calls] by simp
  also have "\<dots> = concat (replicate (GridRows * GridColumns)
        [(b, MainProgram, ''modelMatrix''), (b, MainProgram, ''height'')]) @
      concat (replicate ((GridRows - 1) * (GridColumns - 1))
        [(b, MainProgram, ''modelMatrix''), (b, MainProgram, ''height'')]) @
      tile_uniform_targets b rest"
    unfolding targets_rows [of b "diamond_calls d model", OF targets_diamond_calls] by simp
  finally show ?thesis by (simp add: replicate_add)
qed

text \<open>
  Claim C3 says that in the shadow pass the per-tile uniforms are set on the bound shadow
  program. The code does otherwise: for each of the
  \<open>GridRows * GridColumns + (GridRows - 1) * (GridColumns - 1)\<close> tiles of the shadow pass,
  \<open>modelMatrix\<close> and \<open>height\<close> are set by calls on \<open>program_\<close> while
  \<open>shadow_program_\<close> is the program that is bound.
\<close>

theorem shadow_pass_tile_uniforms_set_on_main_program:
  "tile_uniform_targets None (shadow_pass (render d [])) =
     concat (replicate (GridRows * GridColumns + (GridRows - 1) * (GridColumns - 1))
       [(Some ShadowProgram, MainProgram, ''modelMatrix''),
        (Some ShadowProgram, MainProgram, ''height'')])"
  unfolding shadow_pass_render
  by (simp add: shadow_pass_head_def targets_grid_calls shadow_pass_tail_def)

section \<open>The frame and the clock\<close>

lemma drawn_tiles_render:
  "drawn_tiles m h (render d gl) =
     drawn_tiles m h gl @ spec_tiles d scene_model @ spec_tiles d scene_model"
proof -
  obtain m1 h1 where 1: "drawn_tiles m h (gl @ render d []) =
      drawn_tiles m h gl @ drawn_tiles m1 h1 (render d [])"
    using drawn_tiles_append by blast
  obtain m2 h2 where 2: "drawn_tiles m1 h1 (shadow_pass (render d []) @ color_pass (render d [])) =
      drawn_tiles m1 h1 (shadow_pass (render d [])) @ drawn_tiles m2 h2 (color_pass (render d []))"
    using drawn_tiles_append by blast
  have 3: "render d [] = shadow_pass (render d []) @ color_pass (render d [])"
    by (simp add: shadow_pass_def color_pass_def)
  have 4: "render d gl = gl @ render d []"
    by (simp add: render_emit)
  show ?thesis
    using 1 2 3 4 by (metis drawn_tiles_shadow_pass drawn_tiles_color_pass)
qed

text \<open>
  Claim C5, amended. \<open>render_and_step dt\<close> emits the calls of \<open>render\<close> for the state it
  was called on and then adds \<open>dt\<close> to the clock: the tiles drawn in the frame, in both
  passes, are those of the clock value before the step.
\<close>

theorem frame_rendered_before_clock_advances:
  "snd (render_and_step dt (d, gl)) = render d gl \<and>
   fst (render_and_step dt (d, gl)) = d\<lparr>cur_time := cur_time d + dt\<rparr> \<and>
   drawn_tiles None None (snd (render_and_step dt (d, []))) =
     spec_tiles d (rotate mat4_identity (0.25 * pi) (Vec3 0 0 1)) @
     spec_tiles d (rotate mat4_identity (0.25 * pi) (Vec3 0 0 1))"
  by (simp add: render_and_step_def Let_def drawn_tiles_render scene_model_def)

text \<open>
  Claim C5 as stated fails: after \<open>render_and_step (pi / 2)\<close> on a demo with clock 0 and
  phases 0 the clock is \<open>pi / 2\<close>, and the first tile of the frame was drawn with height 2.5,
  the height of clock 0, not with the height of the advanced clock.
\<close>

theorem frame_not_rendered_from_advanced_clock:
  "cur_time (fst (render_and_step (pi / 2) (example_demo, []))) = pi / 2 \<and>
   tile_height (drawn_tiles None None (snd (render_and_step (pi / 2) (example_demo, []))) ! 0) =
     Some (UFloat 2.5) \<and>
   tile_height (drawn_tiles None None (snd (render_and_step (pi / 2) (example_demo, []))) ! 0) \<noteq>
     Some (UFloat (2.5 * (1 + sin (cur_time (fst (render_and_step (pi / 2) (example_demo, []))) +
                                   hexagon_heights example_demo 0 0))))"
proof -
  have "(0::nat) < GridRows" "(0::nat) < GridColumns" by (simp_all add: GridRows_def GridColumns_def)
  then have 0: "spec_tiles example_demo scene_model ! 0 = spec_hexagon_tile example_demo scene_model 0 0"
    using spec_tiles_hexagon_nth [of 0 0 example_demo scene_model] by simp
  have len: "0 < length (spec_tiles example_demo scene_model)"
    by (simp add: length_spec_tiles GridRows_def GridColumns_def)
  have "drawn_tiles None None (snd (render_and_step (pi / 2) (example_demo, []))) ! 0 =
      spec_hexagon_tile example_demo scene_model 0 0"
    using 0 len by (simp add: render_and_step_def Let_def drawn_tiles_render nth_append)
  then show ?thesis
    by (simp add: spec_hexagon_tile_def spec_height_def render_and_step_def Let_def example_demo_def)
qed

lemma cur_time_run_frames:
  "cur_time (fst (run_frames dts (d, gl))) = cur_time d + sum_list dts"
proof (induction dts arbitrary: d gl)
  case Nil
  show ?case by (simp add: run_frames_def)
next
  case (Cons dt dts)
  have "run_frames (dt # dts) (d, gl) = run_frames dts (d\<lparr>cur_time := cur_time d + dt\<rparr>, render d gl)"
    by (simp add: run_frames_def render_and_step_def Let_def)
  then show ?case using Cons.IH by simp
qed

lemma sum_list_take_mono:
  assumes "\<forall>x\<in>set xs. (0::real) \<le> x" "i \<le> j"
  shows "sum_list (take i xs) \<le> sum_list (take j xs)"
proof -
  have "take j xs = take i xs @ drop i (take j xs)"
    using assms(2) by (metis append_take_drop_id min.absorb1 take_take)
  then have "sum_list (take j xs) = sum_list (take i xs) + sum_list (drop i (take j xs))"
    by (metis sum_list_append)
  moreover have "0 \<le> sum_list (drop i (take j xs))"
    using assms(1) by (intro sum_list_nonneg) (auto dest!: in_set_dropD in_set_takeD)
  ultimately show ?thesis by simp
qed

text \<open>
  Claim C8. The clock is 0 after construction; \<open>render_and_step dt\<close> adds exactly \<open>dt\<close>
  to it, so after the frames \<open>dts\<close> it has grown by their sum; when no \<open>dt\<close> is negative,
  the clock values before the first frame and after each frame are in non-decreasing order;
  and \<open>render_and_step 0\<close> leaves the state of the demo as it was, so that rendering it
  again gives the calls of the frame just rendered.
\<close>

theorem scene_clock_accumulates:
  assumes "\<forall>dt\<in>set dts. 0 \<le> dt"
  shows "cur_time (fst (Demo width height h0 d0 c gl0)) = 0 \<and>
    cur_time (fst (render_and_step dt (d, gl))) = cur_time d + dt \<and>
    cur_time (fst (run_frames dts (d, gl))) = cur_time d + sum_list dts \<and>
    sorted (clock_history dts (d, gl)) \<and>
    fst (render_and_step 0 (d, gl)) = d \<and>
    render (fst (render_and_step 0 (d, gl))) [] = render d []"
proof (intro conjI)
  show "cur_time (fst (Demo width height h0 d0 c gl0)) = 0"
    by (simp add: Demo_demo)
  show "cur_time (fst (render_and_step dt (d, gl))) = cur_time d + dt"
    by (simp add: render_and_step_def Let_def)
  show "cur_time (fst (run_frames dts (d, gl))) = cur_time d + sum_list dts"
    by (rule cur_time_run_frames)
  show "sorted (clock_history dts (d, gl))"
    unfolding clock_history_def cur_time_run_frames sorted_iff_nth_mono
  proof (intro allI impI)
    fix i j
    assume "i \<le> j" and "j < length (map (\<lambda>k. cur_time d + sum_list (take k dts)) [0..<Suc (length dts)])"
    then show "map (\<lambda>k. cur_time d + sum_list (take k dts)) [0..<Suc (length dts)] ! i
        \<le> map (\<lambda>k. cur_time d + sum_list (take k dts)) [0..<Suc (length dts)] ! j"
      using sum_list_take_mono [OF assms, of i j] by (simp del: upt_Suc)
  qed
  show "fst (render_and_step 0 (d, gl)) = d"
    by (simp add: render_and_step_def Let_def)
  then show "render (fst (render_and_step 0 (d, gl))) [] = render d []"
    by simp
qed

text \<open>
  Claim C8, for the three frames with steps 0, 1 and 2.
\<close>

theorem scene_clock_accumulates_witness:
  "(0::real) \<le> 0 \<and> (0::real) \<le> 1 \<and> (0::real) \<le> 2 \<and>
   cur_time (fst (Demo 800 800 (\<lambda>i j. 0) (\<lambda>i j. 0) counting_stdlib [])) = 0 \<and>
   cur_time (fst (run_frames [0, 1, 2] (example_demo, []))) = 3 \<and>
   sorted (clock_history [0, 1, 2] (example_demo, [])) \<and>
   render (fst (render_and_step 0 (example_demo, []))) [] = render example_demo []"
proof -
  have h: "\<forall>dt\<in>set [0, 1, 2 :: real]. 0 \<le> dt" by simp
  show ?thesis
    using scene_clock_accumulates [OF h, of 800 800 "\<lambda>i j. 0" "\<lambda>i j. 0" counting_stdlib "[]" 0 example_demo "[]"]
    by (simp add: example_demo_def)
qed

end
